theory Spec2Isabelle
  imports Complex_Main
begin

section \<open>The DQN agent of \<open>distractors_benchmark/agent.py\<close>\<close>

text \<open>
  The module defines one class, \<open>DQNAgent\<close>, whose constructor wires objects of the
  reverb, acme, sonnet and tensorflow frameworks together, its method \<open>update\<close>, and the
  function \<open>encoding_spec\<close>. The embedding follows the constructor statement by statement.
  A framework object is the record (or datatype value) of the arguments its constructor
  was called with: what the frameworks compute from them is outside this development.
  Python \<open>int\<close> is \<open>int\<close>, \<open>str\<close> is \<open>string\<close>, \<open>Optional\<close> is \<open>option\<close>. A \<open>float\<close> that
  the constructor only hands on is read as a \<open>real\<close>. The two floats it computes with,
  \<open>samples_per_insert\<close> and the quotient it passes to the parent class, have a type
  \<open>'f\<close> of their own, and Python's arithmetic on them (conversion from \<open>int\<close>, the test
  for a zero divisor, the rounded quotient) is a parameter of the model, as are the
  argument checks of the frameworks. An exception is a value of \<open>py_error\<close>.
\<close>

subsection \<open>Python values\<close>

datatype py_error = IndexError | ZeroDivisionError | ValueError | OverflowError

text \<open>Objects that live in the store are named by their identity.\<close>

type_synonym ref = nat

text \<open>Arguments the constructor only hands on (\<open>wandb\<close>, \<open>logger\<close>, \<open>beta\<close>).\<close>

datatype pyobj = PyNone | PyObject ref | PyFloat real

text \<open>\<open>xs[i]\<close> on a tuple, for an index that is not negative.\<close>

fun getitem :: "'a list \<Rightarrow> nat \<Rightarrow> py_error + 'a" where
  "getitem [] i = Inl IndexError"
| "getitem (x # xs) 0 = Inr x"
| "getitem (x # xs) (Suc i) = getitem xs i"

text \<open>\<open>str(n)\<close>, as the f-string \<open>f"localhost:{port}"\<close> renders a port number.\<close>

fun str_nat :: "nat \<Rightarrow> string" where
  "str_nat n =
     (if n < 10 then [''0123456789'' ! n]
      else str_nat (n div 10) @ [''0123456789'' ! (n mod 10)])"

declare str_nat.simps [simp del]

subsection \<open>acme specs and tensors\<close>

record array_spec =
  shape :: "int list"
  dtype :: string
  name :: string

record discrete_array =
  num_values :: int

record environment_spec =
  observations :: array_spec
  actions :: discrete_array
  rewards :: array_spec
  discounts :: array_spec

text \<open>A tensor, as far as \<open>encoding_spec\<close> reads it: its shape and its dtype.\<close>

record tensor =
  t_shape :: "int list"
  t_dtype :: string

definition zeros_like :: "array_spec \<Rightarrow> tensor" where
  "zeros_like spec = \<lparr>t_shape = shape spec, t_dtype = dtype spec\<rparr>"

definition add_batch_dim :: "tensor \<Rightarrow> tensor" where
  "add_batch_dim t = t\<lparr>t_shape := 1 # t_shape t\<rparr>"

text \<open>What \<open>create_variables\<close> is given: one spec, or a list of them.\<close>

datatype nest = Leaf array_spec | Nest "nest list"

subsection \<open>reverb: tables, servers, clients\<close>

datatype selector =
  is_Prioritized: Prioritized (priority_exponent_of: real)
| Fifo | Lifo | Uniform | MaxHeap | MinHeap

datatype rate_limiter = MinSize int | SampleToInsertRatio real int real

datatype signature = NStepTransitionAdder_signature environment_spec

definition DEFAULT_PRIORITY_TABLE :: string where
  "DEFAULT_PRIORITY_TABLE = ''priority_table''"

record reverb_table =
  name :: string
  sampler :: selector
  remover :: selector
  max_size :: int
  rate_limiter :: rate_limiter
  signature :: signature

record reverb_server =
  tables :: "reverb_table list"
  port :: nat

datatype reverb_client = Client string

datatype reverb_tf_client = TFClient string

record nstep_transition_adder =
  client :: reverb_client
  n_step :: int
  discount :: real

record reverb_dataset =
  server_address :: string
  batch_size :: int
  prefetch_size :: int

subsection \<open>What Python and the frameworks decide\<close>

text \<open>
  The constructor relies on behaviour that is not written in the repository. A
  \<open>runtime\<close> holds it:
  \<^item> \<open>table_check\<close> and \<open>dataset_check\<close>: the exception, if any, with which \<open>reverb.Table\<close>
    and \<open>make_reverb_dataset\<close> refuse arguments beyond the two refusals written out
    below (a batch size whose double does not fit in 64 bits is one such);
  \<open>None\<close> when they accept;
  \<^item> \<open>to_float\<close>: \<open>float(n)\<close>, which raises \<open>OverflowError\<close> on an \<open>int\<close> too large for a
    double;
  \<^item> \<open>float_is_zero\<close>: the test \<open>y == 0.0\<close> that float division makes on its divisor,
    true of both zeros;
  \<^item> \<open>float_quotient\<close>: the double that \<open>x / y\<close> evaluates to for a divisor that is not
    zero, rounded, infinite or not a number as IEEE arithmetic has it.
\<close>

record 'f runtime =
  table_check :: "reverb_table \<Rightarrow> py_error option"
  dataset_check :: "reverb_dataset \<Rightarrow> py_error option"
  to_float :: "int \<Rightarrow> py_error + 'f"
  float_is_zero :: "'f \<Rightarrow> bool"
  float_quotient :: "'f \<Rightarrow> 'f \<Rightarrow> 'f"

text \<open>\<open>x / y\<close> on floats: a zero divisor raises, every other divisor gives the quotient.\<close>

definition truediv :: "'f runtime \<Rightarrow> 'f \<Rightarrow> 'f \<Rightarrow> py_error + 'f" where
  "truediv rt x y =
     (if float_is_zero rt y then Inl ZeroDivisionError else Inr (float_quotient rt x y))"

text \<open>
  \<open>reverb.Table(...)\<close> raises \<open>ValueError\<close> for a maximum size that is not positive, and
  for whatever else the framework refuses.
\<close>

definition reverb_Table :: "'f runtime \<Rightarrow> reverb_table \<Rightarrow> py_error + reverb_table" where
  "reverb_Table rt t =
     (if max_size t \<le> 0 then Inl ValueError
      else case table_check rt t of Some e \<Rightarrow> Inl e | None \<Rightarrow> Inr t)"

text \<open>
  \<open>datasets.make_reverb_dataset(...)\<close> raises \<open>ValueError\<close> for a batch size that is not
  positive, and for whatever else the framework refuses.
\<close>

definition make_reverb_dataset ::
  "'f runtime \<Rightarrow> string \<Rightarrow> int \<Rightarrow> int \<Rightarrow> py_error + reverb_dataset" where
  "make_reverb_dataset rt address b p =
     (let d = \<lparr>server_address = address, batch_size = b, prefetch_size = p\<rparr>
      in if b \<le> 0 then Inl ValueError
         else case dataset_check rt d of Some e \<Rightarrow> Inl e | None \<Rightarrow> Inr d)"

subsection \<open>Networks, policies, actors, learners, checkpointers\<close>

text \<open>
  Modelled from the spec: the class \<open>QNetworkWithEncoder\<close> of the repository's module
  \<open>networks\<close> is not among the sources. The spec calls it "a neural network with an
  encoder"; the constructor below shows its five arguments, its sub-modules
  \<open>_decoder\<close> and \<open>_projector\<close> and its method \<open>encode\<close>. An instance is the record of
  the arguments together with, for the network and for each of the two sub-modules, the
  input spec its variables were created for (\<open>None\<close> before they are created). The
  sub-modules belong to their network alone and are held inside its record. The method
  \<open>encode\<close> is a parameter of the functions that call it.
\<close>

record qnetwork =
  q_num_values :: int
  q_input_dim :: int
  encoder_type :: string
  encoder_feature_dim :: int
  projection_feature_dim :: int
  variables :: "nest option"
  decoder_variables :: "nest option"
  projector_variables :: "nest option"

text \<open>\<open>tf.Variable(value, trainable=...)\<close>, or a tensor the caller supplies.\<close>

datatype tf_scalar = Tensor real | Variable real bool

text \<open>
  The two callables of the default policy: the online network, held by reference, and
  \<open>lambda q: trfl.epsilon_greedy(q, epsilon=epsilon).sample()\<close>, which holds the
  \<open>epsilon\<close> it closes over.
\<close>

datatype callable = NetworkCall ref | EpsilonGreedySample tf_scalar

datatype snt_module = Module ref | Sequential "callable list"

record feed_forward_actor =
  policy_network :: snt_module
  adder :: nstep_transition_adder

record learner_kwargs =
  network :: ref
  target_network :: ref
  discount :: real
  importance_sampling_exponent :: real
  learning_rate :: real
  target_update_period :: int
  dataset :: reverb_dataset
  replay_client :: reverb_tf_client
  logger :: pyobj
  checkpoint :: bool
  wandb :: pyobj
  beta :: pyobj

text \<open>
  The argument \<open>learner\<close> is a class: the constructor calls it with keyword arguments
  and later reads the attribute \<open>state\<close> of the object it returns.
\<close>

record ('l, 's) learner_class =
  construct :: "learner_kwargs \<Rightarrow> 'l"
  state :: "'l \<Rightarrow> 's"

record 's checkpointer =
  directory :: string
  objects_to_save :: 's
  subdirectory :: string
  time_delta_minutes :: real

subsection \<open>The world the constructor acts on\<close>

text \<open>
  \<open>free_port\<close> is the port reverb binds when a server is created with \<open>port=None\<close>;
  \<open>started\<close> lists the servers stood up so far; \<open>objects\<close> is the store of network
  objects and \<open>next_id\<close> the identity the next new object gets.
\<close>

record world =
  free_port :: nat
  started :: "reverb_server list"
  next_id :: ref
  objects :: "ref \<Rightarrow> qnetwork option"

definition reverb_Server :: "reverb_table list \<Rightarrow> nat option \<Rightarrow> world \<Rightarrow> reverb_server \<times> world" where
  "reverb_Server ts p w =
     (let s = \<lparr>tables = ts, port = (case p of None \<Rightarrow> free_port w | Some q \<Rightarrow> q)\<rparr>
      in (s, w\<lparr>started := started w @ [s]\<rparr>))"

text \<open>
  Modelled from the spec: the constructor of \<open>QNetworkWithEncoder\<close>, called with two
  positional and three keyword arguments. It makes a new object whose variables are not
  created yet.
\<close>

definition QNetworkWithEncoder ::
  "int \<Rightarrow> int \<Rightarrow> string \<Rightarrow> int \<Rightarrow> int \<Rightarrow> world \<Rightarrow> ref \<times> world" where
  "QNetworkWithEncoder nv idim et efd pfd w =
     (let r = next_id w;
          obj = \<lparr>q_num_values = nv, q_input_dim = idim, encoder_type = et,
                 encoder_feature_dim = efd, projection_feature_dim = pfd,
                 variables = None, decoder_variables = None, projector_variables = None\<rparr>
      in (r, w\<lparr>next_id := Suc r, objects := (objects w)(r := Some obj)\<rparr>))"

text \<open>
  \<open>tf2_utils.create_variables(module, input_spec)\<close> for the three modules the constructor
  builds: the network itself, its \<open>_decoder\<close> and its \<open>_projector\<close>.
\<close>

datatype module_of = Itself | Decoder | Projector

definition create_variables :: "ref \<Rightarrow> module_of \<Rightarrow> nest \<Rightarrow> world \<Rightarrow> world" where
  "create_variables r m input_spec w =
     (case objects w r of
        None \<Rightarrow> w
      | Some obj \<Rightarrow>
          w\<lparr>objects := (objects w)(r := Some
            (case m of
               Itself \<Rightarrow> obj\<lparr>variables := Some input_spec\<rparr>
             | Decoder \<Rightarrow> obj\<lparr>decoder_variables := Some input_spec\<rparr>
             | Projector \<Rightarrow> obj\<lparr>projector_variables := Some input_spec\<rparr>))\<rparr>)"

text \<open>
  \<open>copy.deepcopy\<close>: a new object, with an identity no object had before, whose contents
  equal those of the object copied.
\<close>

definition deepcopy :: "ref \<Rightarrow> world \<Rightarrow> ref \<times> world" where
  "deepcopy r w =
     (let r' = next_id w
      in (r', w\<lparr>next_id := Suc r', objects := (objects w)(r' := objects w r)\<rparr>))"

subsection \<open>\<open>encoding_spec\<close>\<close>

definition encoding_spec ::
  "(qnetwork \<Rightarrow> tensor \<Rightarrow> tensor) \<Rightarrow> qnetwork \<Rightarrow> array_spec \<Rightarrow> array_spec" where
  "encoding_spec encode net observation_spec =
     (let dummy_input = zeros_like observation_spec;
          encoding = encode net (add_batch_dim dummy_input)
      in \<lparr>shape = t_shape encoding, dtype = t_dtype encoding, name = ''Encoding''\<rparr>)"

subsection \<open>The agent\<close>

text \<open>
  The fields a \<open>DQNAgent\<close> holds once it is built: \<open>_server\<close>, \<open>network\<close> and
  \<open>_checkpointer\<close>, which the constructor sets itself, and the four arguments it hands
  to the constructor of the parent class \<open>agent.Agent\<close>.
\<close>

record ('l, 's, 'f) dqn_agent =
  server :: reverb_server
  network :: ref
  checkpointer :: "'s checkpointer option"
  actor :: feed_forward_actor
  learner :: 'l
  min_observations :: int
  observations_per_step :: 'f

text \<open>The parameters of \<open>DQNAgent.__init__\<close>, in the order of its signature.\<close>

record ('l, 's, 'f) init_args =
  learner :: "('l, 's) learner_class"
  wandb :: pyobj
  environment_spec :: environment_spec
  encoder_type :: string
  encoder_feature_dim :: int
  projection_feature_dim :: int
  batch_size :: int
  prefetch_size :: int
  target_update_period :: int
  samples_per_insert :: 'f
  min_replay_size :: int
  max_replay_size :: int
  importance_sampling_exponent :: real
  priority_exponent :: real
  n_step :: int
  epsilon :: "tf_scalar option"
  learning_rate :: real
  discount :: real
  logger :: pyobj
  checkpoint :: bool
  checkpoint_subpath :: string
  policy_network :: "snt_module option"
  beta :: pyobj

text \<open>
  \<open>DQNAgent.__init__\<close>. The result is the agent, or the exception that ended the call,
  and the world the call leaves behind. The call can end in an exception at five places:
  in \<open>reverb.Table\<close>, before any server is started; in \<open>make_reverb_dataset\<close>; at
  \<open>environment_spec.observations.shape[0]\<close>; and, in the last statement, at
  \<open>float(batch_size)\<close> and at the division.
\<close>

definition DQNAgent_init ::
  "'f runtime \<Rightarrow> (qnetwork \<Rightarrow> tensor \<Rightarrow> tensor) \<Rightarrow> ('l, 's, 'f) init_args \<Rightarrow> world
     \<Rightarrow> (py_error + ('l, 's, 'f) dqn_agent) \<times> world" where
  "DQNAgent_init rt encode a w0 =
    (case reverb_Table rt
           \<lparr>reverb_table.name = DEFAULT_PRIORITY_TABLE,
            sampler = Prioritized (priority_exponent a),
            remover = Fifo,
            max_size = max_replay_size a,
            rate_limiter = MinSize 1,
            signature = NStepTransitionAdder_signature (environment_spec a)\<rparr> of
       Inl e \<Rightarrow> (Inl e, w0)
     | Inr replay_table \<Rightarrow>
    (let (self_server, w1) = reverb_Server [replay_table] None w0;
         address = ''localhost:'' @ str_nat (port self_server);
         the_adder =
           \<lparr>client = Client address,
            nstep_transition_adder.n_step = n_step a,
            nstep_transition_adder.discount = discount a\<rparr>;
         the_replay_client = TFClient address
     in case make_reverb_dataset rt address (batch_size a) (prefetch_size a) of
          Inl e \<Rightarrow> (Inl e, w1)
        | Inr the_dataset \<Rightarrow>
       (case getitem (shape (observations (environment_spec a))) 0 of
          Inl e \<Rightarrow> (Inl e, w1)
        | Inr obs_dim \<Rightarrow>
    (let (self_network, w2) =
           QNetworkWithEncoder (num_values (actions (environment_spec a))) obs_dim
             (encoder_type a) (encoder_feature_dim a) (projection_feature_dim a) w1;
         the_policy_network =
           (case policy_network a of
              None \<Rightarrow>
                (let eps = (case epsilon a of
                              None \<Rightarrow> Variable (5 / 100) False
                            | Some e \<Rightarrow> e)
                 in Sequential [NetworkCall self_network, EpsilonGreedySample eps])
            | Some p \<Rightarrow> p);
         w3 = create_variables self_network Itself
                (Nest [Leaf (observations (environment_spec a))]) w2;
         w4 = (case objects w3 self_network of
                 None \<Rightarrow> w3
               | Some net \<Rightarrow>
                   create_variables self_network Decoder
                     (Leaf (encoding_spec encode net (observations (environment_spec a)))) w3);
         w5 = (if encoder_type a \<noteq> []
               then (case objects w4 self_network of
                       None \<Rightarrow> w4
                     | Some net \<Rightarrow>
                         create_variables self_network Projector
                           (Leaf (encoding_spec encode net (observations (environment_spec a)))) w4)
               else w4);
         (the_target_network, w6) = deepcopy self_network w5;
         the_actor =
           \<lparr>feed_forward_actor.policy_network = the_policy_network, adder = the_adder\<rparr>;
         dqn_learner = construct (learner a)
           \<lparr>learner_kwargs.network = self_network,
            target_network = the_target_network,
            learner_kwargs.discount = discount a,
            learner_kwargs.importance_sampling_exponent = importance_sampling_exponent a,
            learner_kwargs.learning_rate = learning_rate a,
            learner_kwargs.target_update_period = target_update_period a,
            dataset = the_dataset,
            replay_client = the_replay_client,
            learner_kwargs.logger = logger a,
            learner_kwargs.checkpoint = checkpoint a,
            learner_kwargs.wandb = wandb a,
            learner_kwargs.beta = beta a\<rparr>;
         self_checkpointer =
           (if checkpoint a
            then Some \<lparr>directory = checkpoint_subpath a,
                       objects_to_save = state (learner a) dqn_learner,
                       subdirectory = ''dqn_learner'',
                       time_delta_minutes = 60\<rparr>
            else None)
     in case to_float rt (batch_size a) of
          Inl e \<Rightarrow> (Inl e, w6)
        | Inr float_batch_size \<Rightarrow>
       (case truediv rt float_batch_size (samples_per_insert a) of
          Inl e \<Rightarrow> (Inl e, w6)
        | Inr ratio \<Rightarrow>
            (Inr \<lparr>server = self_server,
                  dqn_agent.network = self_network,
                  checkpointer = self_checkpointer,
                  actor = the_actor,
                  dqn_agent.learner = dqn_learner,
                  min_observations = max (batch_size a) (min_replay_size a),
                  observations_per_step = ratio\<rparr>, w6))))))"

text \<open>
  \<open>DQNAgent.update\<close>. What the two framework methods do is theirs; the model appends
  each call to a log, in the order the calls are made.
\<close>

datatype 's call = Agent_update | Checkpointer_save "'s checkpointer"

definition update :: "('l, 's, 'f) dqn_agent \<Rightarrow> 's call list \<Rightarrow> 's call list" where
  "update self log0 =
     (let log1 = log0 @ [Agent_update]
      in case checkpointer self of
           None \<Rightarrow> log1
         | Some c \<Rightarrow> log1 @ [Checkpointer_save c])"

text \<open>
  A policy is epsilon-greedy over the network \<open>r\<close> when it is the composition the
  constructor builds by default: the network \<open>r\<close>, then the epsilon-greedy sample of its
  output.
\<close>

fun epsilon_greedy_over :: "ref \<Rightarrow> snt_module \<Rightarrow> bool" where
  "epsilon_greedy_over r (Sequential [NetworkCall r', EpsilonGreedySample e]) = (r' = r)"
| "epsilon_greedy_over r p = False"

text \<open>
  The table the constructor asks reverb for, and the address it gives to the clients and
  to the dataset, as the statements about the constructor name them.
\<close>

abbreviation replay_table :: "('l, 's, 'f) init_args \<Rightarrow> reverb_table" where
  "replay_table a \<equiv>
     \<lparr>reverb_table.name = DEFAULT_PRIORITY_TABLE,
      sampler = Prioritized (priority_exponent a),
      remover = Fifo,
      max_size = max_replay_size a,
      rate_limiter = MinSize 1,
      signature = NStepTransitionAdder_signature (environment_spec a)\<rparr>"

abbreviation replay_address :: "world \<Rightarrow> string" where
  "replay_address w \<equiv> ''localhost:'' @ str_nat (free_port w)"

abbreviation replay_dataset :: "('l, 's, 'f) init_args \<Rightarrow> world \<Rightarrow> reverb_dataset" where
  "replay_dataset a w \<equiv>
     \<lparr>server_address = replay_address w,
      reverb_dataset.batch_size = batch_size a,
      reverb_dataset.prefetch_size = prefetch_size a\<rparr>"

subsection \<open>A run of the constructor\<close>

text \<open>
  The constructor called with the default arguments of its signature for an environment
  with four-dimensional observations and two actions, in a world without servers or
  objects where reverb binds port 41953. The learner class of the example returns its
  keyword arguments as the learner, and the state it saves is the online network. The
  runtime of the example refuses a batch size whose double does not fit in 64 bits and
  an \<open>int\<close> beyond the range of a double, and it computes with exact reals, which is what
  doubles do on the numbers of the example: 256 / 32 is 8 without rounding.
\<close>

definition example_runtime :: "real runtime" where
  "example_runtime =
     \<lparr>table_check = (\<lambda>t. None),
      dataset_check =
        (\<lambda>d. if 2 ^ 63 \<le> 2 * reverb_dataset.batch_size d then Some ValueError else None),
      to_float =
        (\<lambda>n. if \<bar>n\<bar> < 2 ^ 1024 then Inr (real_of_int n) else Inl OverflowError),
      float_is_zero = (\<lambda>y. y = 0),
      float_quotient = (\<lambda>x y. x / y)\<rparr>"

definition example_spec :: environment_spec where
  "example_spec =
     \<lparr>observations = \<lparr>shape = [4], dtype = ''float32'', array_spec.name = ''observation''\<rparr>,
      actions = \<lparr>num_values = 2\<rparr>,
      rewards = \<lparr>shape = [], dtype = ''float32'', array_spec.name = ''reward''\<rparr>,
      discounts = \<lparr>shape = [], dtype = ''float32'', array_spec.name = ''discount''\<rparr>\<rparr>"

definition example_learner :: "(learner_kwargs, ref) learner_class" where
  "example_learner = \<lparr>construct = (\<lambda>kw. kw), state = learner_kwargs.network\<rparr>"

definition example_encode :: "qnetwork \<Rightarrow> tensor \<Rightarrow> tensor" where
  "example_encode net t =
     \<lparr>t_shape = take 1 (t_shape t) @ [qnetwork.encoder_feature_dim net], t_dtype = t_dtype t\<rparr>"

definition example_args :: "(learner_kwargs, ref, real) init_args" where
  "example_args =
     \<lparr>learner = example_learner, wandb = PyObject 100, environment_spec = example_spec,
      encoder_type = ''mlp'', encoder_feature_dim = 6, projection_feature_dim = 6,
      batch_size = 256, prefetch_size = 4, target_update_period = 100,
      samples_per_insert = 32, min_replay_size = 1000, max_replay_size = 1000000,
      importance_sampling_exponent = 2 / 10, priority_exponent = 6 / 10, n_step = 5,
      epsilon = None, learning_rate = 1 / 1000, discount = 99 / 100, logger = PyNone,
      checkpoint = True, checkpoint_subpath = ''~/acme/'', policy_network = None,
      beta = PyNone\<rparr>"

definition example_world :: world where
  "example_world = \<lparr>free_port = 41953, started = [], next_id = 0, objects = (\<lambda>r. None)\<rparr>"

definition example_server :: reverb_server where
  "example_server =
     \<lparr>tables = [\<lparr>reverb_table.name = ''priority_table'',
                 sampler = Prioritized (6 / 10),
                 remover = Fifo,
                 max_size = 1000000,
                 rate_limiter = MinSize 1,
                 signature = NStepTransitionAdder_signature example_spec\<rparr>],
      port = 41953\<rparr>"

definition example_kwargs :: learner_kwargs where
  "example_kwargs =
     \<lparr>learner_kwargs.network = 0,
      target_network = 1,
      learner_kwargs.discount = 99 / 100,
      learner_kwargs.importance_sampling_exponent = 2 / 10,
      learner_kwargs.learning_rate = 1 / 1000,
      learner_kwargs.target_update_period = 100,
      dataset = \<lparr>server_address = ''localhost:41953'',
                 reverb_dataset.batch_size = 256,
                 reverb_dataset.prefetch_size = 4\<rparr>,
      replay_client = TFClient ''localhost:41953'',
      learner_kwargs.logger = PyNone,
      learner_kwargs.checkpoint = True,
      learner_kwargs.wandb = PyObject 100,
      learner_kwargs.beta = PyNone\<rparr>"

definition example_checkpointer :: "ref checkpointer" where
  "example_checkpointer =
     \<lparr>directory = ''~/acme/'', objects_to_save = 0,
      subdirectory = ''dqn_learner'', time_delta_minutes = 60\<rparr>"

definition example_agent :: "(learner_kwargs, ref, real) dqn_agent" where
  "example_agent =
     \<lparr>server = example_server,
      dqn_agent.network = 0,
      checkpointer = Some example_checkpointer,
      actor =
        \<lparr>feed_forward_actor.policy_network =
           Sequential [NetworkCall 0, EpsilonGreedySample (Variable (5 / 100) False)],
         adder = \<lparr>client = Client ''localhost:41953'',
                  nstep_transition_adder.n_step = 5,
                  nstep_transition_adder.discount = 99 / 100\<rparr>\<rparr>,
      dqn_agent.learner = example_kwargs,
      min_observations = 1000,
      observations_per_step = 8\<rparr>"

definition example_network :: qnetwork where
  "example_network =
     \<lparr>q_num_values = 2, q_input_dim = 4,
      qnetwork.encoder_type = ''mlp'',
      qnetwork.encoder_feature_dim = 6,
      qnetwork.projection_feature_dim = 6,
      variables = Some (Nest [Leaf (observations example_spec)]),
      decoder_variables =
        Some (Leaf \<lparr>shape = [1, 6], dtype = ''float32'', array_spec.name = ''Encoding''\<rparr>),
      projector_variables =
        Some (Leaf \<lparr>shape = [1, 6], dtype = ''float32'', array_spec.name = ''Encoding''\<rparr>)\<rparr>"

definition example_after :: world where
  "example_after =
     \<lparr>free_port = 41953, started = [example_server], next_id = 2,
      objects = (\<lambda>r. None)(0 := Some example_network, 1 := Some example_network)\<rparr>"


section \<open>How a call of the constructor ends\<close>

lemmas init_defs = DQNAgent_init_def reverb_Server_def QNetworkWithEncoder_def deepcopy_def
  create_variables_def truediv_def Let_def

lemma reverb_Table_Inr:
  assumes "reverb_Table rt t = Inr t'"
  shows "t' = t" and "0 < max_size t" and "table_check rt t = None"
  using assms by (auto simp: reverb_Table_def split: if_splits option.splits)

lemma make_reverb_dataset_Inr:
  assumes "make_reverb_dataset rt address b p = Inr d"
  shows "d = \<lparr>server_address = address, reverb_dataset.batch_size = b,
               reverb_dataset.prefetch_size = p\<rparr>"
    and "0 < b"
    and "dataset_check rt \<lparr>server_address = address, reverb_dataset.batch_size = b,
               reverb_dataset.prefetch_size = p\<rparr> = None"
  using assms by (auto simp: make_reverb_dataset_def Let_def split: if_splits option.splits)

text \<open>A table that reverb refuses ends the call before a server is started.\<close>

lemma DQNAgent_init_Table_error:
  assumes "reverb_Table rt (replay_table a) = Inl e"
  shows "DQNAgent_init rt encode a w = (Inl e, w)"
  using assms by (simp add: DQNAgent_init_def)

text \<open>A dataset that acme refuses ends it next.\<close>

lemma DQNAgent_init_dataset_error:
  assumes "reverb_Table rt (replay_table a) = Inr t"
    and "make_reverb_dataset rt (replay_address w) (batch_size a) (prefetch_size a) = Inl e"
  shows "fst (DQNAgent_init rt encode a w) = Inl e"
  using assms by (simp add: DQNAgent_init_def reverb_Server_def Let_def)

text \<open>Past that point, an observation spec without dimensions ends the call at \<open>shape[0]\<close>.\<close>

lemma DQNAgent_init_IndexError:
  assumes "reverb_Table rt (replay_table a) = Inr t"
    and "make_reverb_dataset rt (replay_address w) (batch_size a) (prefetch_size a) = Inr d"
    and "shape (observations (environment_spec a)) = []"
  shows "fst (DQNAgent_init rt encode a w) = Inl IndexError"
  using assms by (simp add: DQNAgent_init_def reverb_Server_def Let_def)

text \<open>In the last statement, \<open>float(batch_size)\<close> may fail, and then a zero divisor.\<close>

lemma DQNAgent_init_float_error:
  assumes "reverb_Table rt (replay_table a) = Inr t"
    and "make_reverb_dataset rt (replay_address w) (batch_size a) (prefetch_size a) = Inr d"
    and "shape (observations (environment_spec a)) = n # ns"
    and "to_float rt (batch_size a) = Inl e"
  shows "fst (DQNAgent_init rt encode a w) = Inl e"
  using assms by (simp add: DQNAgent_init_def reverb_Server_def Let_def split_def)

lemma DQNAgent_init_ZeroDivisionError:
  assumes "reverb_Table rt (replay_table a) = Inr t"
    and "make_reverb_dataset rt (replay_address w) (batch_size a) (prefetch_size a) = Inr d"
    and "shape (observations (environment_spec a)) = n # ns"
    and "to_float rt (batch_size a) = Inr x"
    and "float_is_zero rt (samples_per_insert a)"
  shows "fst (DQNAgent_init rt encode a w) = Inl ZeroDivisionError"
  using assms by (simp add: DQNAgent_init_def reverb_Server_def truediv_def Let_def split_def)

text \<open>In the model, every other call returns an agent.\<close>

lemma DQNAgent_init_succeeds:
  assumes "reverb_Table rt (replay_table a) = Inr t"
    and "make_reverb_dataset rt (replay_address w) (batch_size a) (prefetch_size a) = Inr d"
    and "shape (observations (environment_spec a)) = n # ns"
    and "to_float rt (batch_size a) = Inr x"
    and "\<not> float_is_zero rt (samples_per_insert a)"
  shows "\<exists>ag. fst (DQNAgent_init rt encode a w) = Inr ag"
  using assms by (simp add: DQNAgent_init_def reverb_Server_def truediv_def Let_def split_def)

lemma DQNAgent_init_returns:
  assumes "DQNAgent_init rt encode a w = (Inr ag, w')"
  obtains n ns x where "reverb_Table rt (replay_table a) = Inr (replay_table a)"
    and "make_reverb_dataset rt (replay_address w) (batch_size a) (prefetch_size a) =
           Inr (replay_dataset a w)"
    and "shape (observations (environment_spec a)) = n # ns"
    and "to_float rt (batch_size a) = Inr x"
    and "\<not> float_is_zero rt (samples_per_insert a)"
    and "ag = projr (fst (DQNAgent_init rt encode a w))"
    and "w' = snd (DQNAgent_init rt encode a w)"
proof -
  have r: "fst (DQNAgent_init rt encode a w) = Inr ag"
    using assms by simp
  obtain t where "reverb_Table rt (replay_table a) = Inr t"
    using DQNAgent_init_Table_error [of rt a _ encode w] assms
    by (cases "reverb_Table rt (replay_table a)") auto
  with reverb_Table_Inr(1) [OF this]
  have t: "reverb_Table rt (replay_table a) = Inr (replay_table a)"
    by simp
  obtain d where
    "make_reverb_dataset rt (replay_address w) (batch_size a) (prefetch_size a) = Inr d"
    using DQNAgent_init_dataset_error [OF t, of w _ encode] r
    by (cases "make_reverb_dataset rt (replay_address w) (batch_size a) (prefetch_size a)")
      auto
  with make_reverb_dataset_Inr(1) [OF this]
  have d: "make_reverb_dataset rt (replay_address w) (batch_size a) (prefetch_size a) =
      Inr (replay_dataset a w)"
    by simp
  obtain n ns where sh: "shape (observations (environment_spec a)) = n # ns"
    using DQNAgent_init_IndexError [OF t d, of encode] r
    by (cases "shape (observations (environment_spec a))") auto
  obtain x where x: "to_float rt (batch_size a) = Inr x"
    using DQNAgent_init_float_error [OF t d sh, of _ encode] r
    by (cases "to_float rt (batch_size a)") auto
  have s: "\<not> float_is_zero rt (samples_per_insert a)"
    using DQNAgent_init_ZeroDivisionError [OF t d sh x, of encode] r by auto
  have ag: "ag = projr (fst (DQNAgent_init rt encode a w))"
    by (simp add: assms)
  have w': "w' = snd (DQNAgent_init rt encode a w)"
    by (simp add: assms)
  from t d sh x s ag w' show thesis by (rule that)
qed

subsection \<open>The fields of a returned agent\<close>

lemma init_server:
  assumes "DQNAgent_init rt encode a w = (Inr ag, w')"
  shows "server ag =
      \<lparr>tables = [\<lparr>reverb_table.name = DEFAULT_PRIORITY_TABLE,
                  sampler = Prioritized (priority_exponent a),
                  remover = Fifo,
                  max_size = max_replay_size a,
                  rate_limiter = MinSize 1,
                  signature = NStepTransitionAdder_signature (environment_spec a)\<rparr>],
       port = free_port w\<rparr>"
proof -
  from assms obtain n ns x
    where t: "reverb_Table rt (replay_table a) = Inr (replay_table a)"
    and d: "make_reverb_dataset rt (replay_address w) (batch_size a) (prefetch_size a) =
           Inr (replay_dataset a w)"
    and sh: "shape (observations (environment_spec a)) = n # ns"
    and x: "to_float rt (batch_size a) = Inr x"
    and s: "\<not> float_is_zero rt (samples_per_insert a)"
    and ag: "ag = projr (fst (DQNAgent_init rt encode a w))"
    by (rule DQNAgent_init_returns)
  show ?thesis unfolding ag using t d sh x s by (simp add: init_defs)
qed

lemma init_started:
  assumes "DQNAgent_init rt encode a w = (Inr ag, w')"
  shows "started w' = started w @ [server ag]"
proof -
  from assms obtain n ns x
    where t: "reverb_Table rt (replay_table a) = Inr (replay_table a)"
    and d: "make_reverb_dataset rt (replay_address w) (batch_size a) (prefetch_size a) =
           Inr (replay_dataset a w)"
    and sh: "shape (observations (environment_spec a)) = n # ns"
    and x: "to_float rt (batch_size a) = Inr x"
    and s: "\<not> float_is_zero rt (samples_per_insert a)"
    and ag: "ag = projr (fst (DQNAgent_init rt encode a w))"
    and w': "w' = snd (DQNAgent_init rt encode a w)"
    by (rule DQNAgent_init_returns)
  show ?thesis unfolding ag w' using t d sh x s by (simp add: init_defs)
qed

lemma init_network:
  assumes "DQNAgent_init rt encode a w = (Inr ag, w')"
  shows "dqn_agent.network ag = next_id w"
proof -
  from assms obtain n ns x
    where t: "reverb_Table rt (replay_table a) = Inr (replay_table a)"
    and d: "make_reverb_dataset rt (replay_address w) (batch_size a) (prefetch_size a) =
           Inr (replay_dataset a w)"
    and sh: "shape (observations (environment_spec a)) = n # ns"
    and x: "to_float rt (batch_size a) = Inr x"
    and s: "\<not> float_is_zero rt (samples_per_insert a)"
    and ag: "ag = projr (fst (DQNAgent_init rt encode a w))"
    by (rule DQNAgent_init_returns)
  show ?thesis unfolding ag using t d sh x s by (simp add: init_defs)
qed

lemma init_learner:
  assumes "DQNAgent_init rt encode a w = (Inr ag, w')"
  shows "dqn_agent.learner ag = construct (learner a)
       \<lparr>learner_kwargs.network = next_id w,
        target_network = Suc (next_id w),
        learner_kwargs.discount = discount a,
        learner_kwargs.importance_sampling_exponent = importance_sampling_exponent a,
        learner_kwargs.learning_rate = learning_rate a,
        learner_kwargs.target_update_period = target_update_period a,
        dataset =
          \<lparr>server_address = ''localhost:'' @ str_nat (free_port w),
           reverb_dataset.batch_size = batch_size a,
           reverb_dataset.prefetch_size = prefetch_size a\<rparr>,
        replay_client = TFClient (''localhost:'' @ str_nat (free_port w)),
        learner_kwargs.logger = logger a,
        learner_kwargs.checkpoint = checkpoint a,
        learner_kwargs.wandb = wandb a,
        learner_kwargs.beta = beta a\<rparr>"
proof -
  from assms obtain n ns x
    where t: "reverb_Table rt (replay_table a) = Inr (replay_table a)"
    and d: "make_reverb_dataset rt (replay_address w) (batch_size a) (prefetch_size a) =
           Inr (replay_dataset a w)"
    and sh: "shape (observations (environment_spec a)) = n # ns"
    and x: "to_float rt (batch_size a) = Inr x"
    and s: "\<not> float_is_zero rt (samples_per_insert a)"
    and ag: "ag = projr (fst (DQNAgent_init rt encode a w))"
    by (rule DQNAgent_init_returns)
  show ?thesis unfolding ag using t d sh x s by (simp add: init_defs)
qed

lemma init_actor:
  assumes "DQNAgent_init rt encode a w = (Inr ag, w')"
  shows "actor ag =
     \<lparr>feed_forward_actor.policy_network =
        (case policy_network a of
           None \<Rightarrow> Sequential [NetworkCall (next_id w),
                     EpsilonGreedySample
                       (case epsilon a of None \<Rightarrow> Variable (5 / 100) False | Some e \<Rightarrow> e)]
         | Some p \<Rightarrow> p),
      adder = \<lparr>client = Client (''localhost:'' @ str_nat (free_port w)),
               nstep_transition_adder.n_step = n_step a,
               nstep_transition_adder.discount = discount a\<rparr>\<rparr>"
proof -
  from assms obtain n ns x
    where t: "reverb_Table rt (replay_table a) = Inr (replay_table a)"
    and d: "make_reverb_dataset rt (replay_address w) (batch_size a) (prefetch_size a) =
           Inr (replay_dataset a w)"
    and sh: "shape (observations (environment_spec a)) = n # ns"
    and x: "to_float rt (batch_size a) = Inr x"
    and s: "\<not> float_is_zero rt (samples_per_insert a)"
    and ag: "ag = projr (fst (DQNAgent_init rt encode a w))"
    by (rule DQNAgent_init_returns)
  show ?thesis unfolding ag using t d sh x s by (simp add: init_defs split: option.splits)
qed

lemma init_checkpointer:
  assumes "DQNAgent_init rt encode a w = (Inr ag, w')"
  shows "checkpointer ag =
     (if checkpoint a
      then Some \<lparr>directory = checkpoint_subpath a,
                 objects_to_save = state (learner a) (dqn_agent.learner ag),
                 subdirectory = ''dqn_learner'',
                 time_delta_minutes = 60\<rparr>
      else None)"
proof -
  from assms obtain n ns x
    where t: "reverb_Table rt (replay_table a) = Inr (replay_table a)"
    and d: "make_reverb_dataset rt (replay_address w) (batch_size a) (prefetch_size a) =
           Inr (replay_dataset a w)"
    and sh: "shape (observations (environment_spec a)) = n # ns"
    and x: "to_float rt (batch_size a) = Inr x"
    and s: "\<not> float_is_zero rt (samples_per_insert a)"
    and ag: "ag = projr (fst (DQNAgent_init rt encode a w))"
    by (rule DQNAgent_init_returns)
  show ?thesis unfolding ag using t d sh x s by (simp add: init_defs)
qed

lemma init_parent_args:
  assumes "DQNAgent_init rt encode a w = (Inr ag, w')"
  shows "min_observations ag = max (batch_size a) (min_replay_size a)"
    and "\<exists>x. to_float rt (batch_size a) = Inr x
           \<and> observations_per_step ag = float_quotient rt x (samples_per_insert a)"
proof -
  from assms obtain n ns x
    where t: "reverb_Table rt (replay_table a) = Inr (replay_table a)"
    and d: "make_reverb_dataset rt (replay_address w) (batch_size a) (prefetch_size a) =
           Inr (replay_dataset a w)"
    and sh: "shape (observations (environment_spec a)) = n # ns"
    and x: "to_float rt (batch_size a) = Inr x"
    and s: "\<not> float_is_zero rt (samples_per_insert a)"
    and ag: "ag = projr (fst (DQNAgent_init rt encode a w))"
    by (rule DQNAgent_init_returns)
  show "min_observations ag = max (batch_size a) (min_replay_size a)"
    unfolding ag using t d sh x s by (simp add: init_defs)
  show "\<exists>x. to_float rt (batch_size a) = Inr x
           \<and> observations_per_step ag = float_quotient rt x (samples_per_insert a)"
    unfolding ag using t d sh x s by (simp add: init_defs)
qed

text \<open>
  The store after the call: the online network and its copy hold equal contents, and the
  contents show the variables that \<open>create_variables\<close> made.
\<close>

lemma init_objects:
  assumes "DQNAgent_init rt encode a w = (Inr ag, w')"
  shows "\<exists>net. objects w' (next_id w) = Some net \<and> objects w' (Suc (next_id w)) = Some net
     \<and> variables net = Some (Nest [Leaf (observations (environment_spec a))])
     \<and> decoder_variables net \<noteq> None
     \<and> (projector_variables net \<noteq> None) = (encoder_type a \<noteq> [])"
proof -
  from assms obtain n ns x
    where t: "reverb_Table rt (replay_table a) = Inr (replay_table a)"
    and d: "make_reverb_dataset rt (replay_address w) (batch_size a) (prefetch_size a) =
           Inr (replay_dataset a w)"
    and sh: "shape (observations (environment_spec a)) = n # ns"
    and x: "to_float rt (batch_size a) = Inr x"
    and s: "\<not> float_is_zero rt (samples_per_insert a)"
    and w': "w' = snd (DQNAgent_init rt encode a w)"
    by (rule DQNAgent_init_returns)
  show ?thesis unfolding w' using t d sh x s by (simp add: init_defs)
qed

subsection \<open>\<open>update\<close>, once and repeated\<close>

lemma update_Some:
  assumes "checkpointer ag = Some c"
  shows "update ag l = l @ [Agent_update, Checkpointer_save c]"
  using assms by (simp add: update_def)

lemma update_None:
  assumes "checkpointer ag = None"
  shows "update ag l = l @ [Agent_update]"
  using assms by (simp add: update_def)

lemma update_funpow_Some:
  assumes "checkpointer ag = Some c"
  shows "(update ag ^^ n) l = l @ concat (replicate n [Agent_update, Checkpointer_save c])"
proof (induction n arbitrary: l)
  case 0
  show ?case by simp
next
  case (Suc n)
  have "(update ag ^^ Suc n) l = (update ag ^^ n) (update ag l)"
    by (simp only: funpow_Suc_right o_apply)
  also have "\<dots> = (l @ [Agent_update, Checkpointer_save c])
      @ concat (replicate n [Agent_update, Checkpointer_save c])"
    by (simp only: Suc.IH update_Some [OF assms])
  finally show ?case by simp
qed

lemma update_funpow_None:
  assumes "checkpointer ag = None"
  shows "(update ag ^^ n) l = l @ replicate n Agent_update"
proof (induction n arbitrary: l)
  case 0
  show ?case by simp
next
  case (Suc n)
  have "(update ag ^^ Suc n) l = (update ag ^^ n) (update ag l)"
    by (simp only: funpow_Suc_right o_apply)
  also have "\<dots> = (l @ [Agent_update]) @ replicate n Agent_update"
    by (simp only: Suc.IH update_None [OF assms])
  finally show ?case by (simp add: replicate_app_Cons_same)
qed

subsection \<open>The example run\<close>

lemmas example_defs = example_args_def example_runtime_def example_spec_def
  example_learner_def reverb_Table_def make_reverb_dataset_def
  example_encode_def example_world_def example_server_def example_kwargs_def
  example_checkpointer_def example_agent_def example_network_def example_after_def
  DEFAULT_PRIORITY_TABLE_def encoding_spec_def zeros_like_def add_batch_dim_def

lemma str_nat_41953: "str_nat 41953 = ''41953''"
  by (simp add: str_nat.simps)

lemma example_run:
  "DQNAgent_init example_runtime example_encode example_args example_world = (Inr example_agent, example_after)"
  by (simp add: init_defs example_defs str_nat_41953)

lemma example_run_no_checkpoint:
  "DQNAgent_init example_runtime example_encode (example_args\<lparr>checkpoint := False\<rparr>) example_world =
     (Inr (example_agent
            \<lparr>checkpointer := None,
             dqn_agent.learner := example_kwargs\<lparr>learner_kwargs.checkpoint := False\<rparr>\<rparr>),
      example_after)"
  by (simp add: init_defs example_defs str_nat_41953)

lemma example_run_given_policy:
  "DQNAgent_init example_runtime example_encode (example_args\<lparr>policy_network := Some (Module 7)\<rparr>)
     example_world =
     (Inr (example_agent
            \<lparr>actor := (actor example_agent)
               \<lparr>feed_forward_actor.policy_network := Module 7\<rparr>\<rparr>),
      example_after)"
  by (simp add: init_defs example_defs str_nat_41953)

lemma example_run_small_replay:
  "DQNAgent_init example_runtime example_encode (example_args\<lparr>min_replay_size := 100\<rparr>) example_world =
     (Inr (example_agent\<lparr>min_observations := 256\<rparr>), example_after)"
  by (simp add: init_defs example_defs str_nat_41953)

lemma example_args_simps:
  "learner example_args = example_learner"
  "wandb example_args = PyObject 100"
  "environment_spec example_args = example_spec"
  "encoder_type example_args = ''mlp''"
  "batch_size example_args = 256"
  "prefetch_size example_args = 4"
  "target_update_period example_args = 100"
  "samples_per_insert example_args = 32"
  "min_replay_size example_args = 1000"
  "max_replay_size example_args = 1000000"
  "importance_sampling_exponent example_args = 2 / 10"
  "priority_exponent example_args = 6 / 10"
  "n_step example_args = 5"
  "epsilon example_args = None"
  "learning_rate example_args = 1 / 1000"
  "discount example_args = 99 / 100"
  "logger example_args = PyNone"
  "checkpoint example_args = True"
  "checkpoint_subpath example_args = ''~/acme/''"
  "policy_network example_args = None"
  "beta example_args = PyNone"
  by (simp_all add: example_args_def)

lemma example_world_simps:
  "free_port example_world = 41953"
  "started example_world = []"
  "next_id example_world = 0"
  by (simp_all add: example_world_def)

section \<open>The claims\<close>

text \<open>
  A claim about what the constructor builds is stated for the calls that return an
  agent, \<open>DQNAgent_init rt encode a w = (Inr ag, w')\<close>, for every runtime \<open>rt\<close>, every
  method \<open>encode\<close> and every world \<open>w\<close>.
\<close>

text \<open>
  C1: the configuration values reach the framework calls unchanged. The dataset reader is
  built over the address of the replay server, \<open>localhost:\<close> followed by the server's port,
  with the given \<open>batch_size\<close> and \<open>prefetch_size\<close>, and the learner class is called with
  the given \<open>discount\<close>, \<open>importance_sampling_exponent\<close>, \<open>learning_rate\<close>,
  \<open>target_update_period\<close>, \<open>logger\<close>, \<open>checkpoint\<close>, \<open>wandb\<close> and \<open>beta\<close>.
\<close>

theorem C1_configuration_passed_through:
  assumes "DQNAgent_init rt encode a w = (Inr ag, w')"
  shows "\<exists>tgt.
     dqn_agent.learner ag = construct (learner a)
       \<lparr>learner_kwargs.network = dqn_agent.network ag,
        target_network = tgt,
        learner_kwargs.discount = discount a,
        learner_kwargs.importance_sampling_exponent = importance_sampling_exponent a,
        learner_kwargs.learning_rate = learning_rate a,
        learner_kwargs.target_update_period = target_update_period a,
        dataset =
          \<lparr>server_address = ''localhost:'' @ str_nat (port (server ag)),
           reverb_dataset.batch_size = batch_size a,
           reverb_dataset.prefetch_size = prefetch_size a\<rparr>,
        replay_client = TFClient (''localhost:'' @ str_nat (port (server ag))),
        learner_kwargs.logger = logger a,
        learner_kwargs.checkpoint = checkpoint a,
        learner_kwargs.wandb = wandb a,
        learner_kwargs.beta = beta a\<rparr>"
proof -
  have p: "port (server ag) = free_port w"
    by (simp add: init_server [OF assms])
  show ?thesis
    unfolding p init_network [OF assms]
    by (rule exI [of _ "Suc (next_id w)"]) (rule init_learner [OF assms])
qed

text \<open>C1 at the example run: the keyword arguments the example learner received.\<close>

theorem C1_witness:
  "DQNAgent_init example_runtime example_encode example_args example_world = (Inr example_agent, example_after)
   \<and> (\<exists>tgt. dqn_agent.learner example_agent =
       \<lparr>learner_kwargs.network = 0,
        target_network = tgt,
        learner_kwargs.discount = 99 / 100,
        learner_kwargs.importance_sampling_exponent = 2 / 10,
        learner_kwargs.learning_rate = 1 / 1000,
        learner_kwargs.target_update_period = 100,
        dataset =
          \<lparr>server_address = ''localhost:41953'',
           reverb_dataset.batch_size = 256,
           reverb_dataset.prefetch_size = 4\<rparr>,
        replay_client = TFClient ''localhost:41953'',
        learner_kwargs.logger = PyNone,
        learner_kwargs.checkpoint = True,
        learner_kwargs.wandb = PyObject 100,
        learner_kwargs.beta = PyNone\<rparr>)"
proof -
  from C1_configuration_passed_through [OF example_run]
  obtain tgt where "dqn_agent.learner example_agent = construct (learner example_args)
       \<lparr>learner_kwargs.network = dqn_agent.network example_agent,
        target_network = tgt,
        learner_kwargs.discount = discount example_args,
        learner_kwargs.importance_sampling_exponent = importance_sampling_exponent example_args,
        learner_kwargs.learning_rate = learning_rate example_args,
        learner_kwargs.target_update_period = target_update_period example_args,
        dataset =
          \<lparr>server_address = ''localhost:'' @ str_nat (port (server example_agent)),
           reverb_dataset.batch_size = batch_size example_args,
           reverb_dataset.prefetch_size = prefetch_size example_args\<rparr>,
        replay_client = TFClient (''localhost:'' @ str_nat (port (server example_agent))),
        learner_kwargs.logger = logger example_args,
        learner_kwargs.checkpoint = checkpoint example_args,
        learner_kwargs.wandb = wandb example_args,
        learner_kwargs.beta = beta example_args\<rparr>" ..
  then have "dqn_agent.learner example_agent =
       \<lparr>learner_kwargs.network = 0,
        target_network = tgt,
        learner_kwargs.discount = 99 / 100,
        learner_kwargs.importance_sampling_exponent = 2 / 10,
        learner_kwargs.learning_rate = 1 / 1000,
        learner_kwargs.target_update_period = 100,
        dataset =
          \<lparr>server_address = ''localhost:41953'',
           reverb_dataset.batch_size = 256,
           reverb_dataset.prefetch_size = 4\<rparr>,
        replay_client = TFClient ''localhost:41953'',
        learner_kwargs.logger = PyNone,
        learner_kwargs.checkpoint = True,
        learner_kwargs.wandb = PyObject 100,
        learner_kwargs.beta = PyNone\<rparr>"
    by (simp add: example_args_def example_learner_def example_agent_def
        example_server_def example_kwargs_def str_nat_41953)
  with example_run show ?thesis by blast
qed

text \<open>
  C2, as amended: the removal policy of the replay table is first-in-first-out, handed to
  the framework's table object as its \<open>remover\<close>; the prioritized selector, with the
  given \<open>priority_exponent\<close>, is the table's \<open>sampler\<close>. The table is the one table of
  the agent's server, which is the server this call started.
\<close>

theorem C2_remover_is_fifo:
  assumes "DQNAgent_init rt encode a w = (Inr ag, w')"
  shows "\<exists>t. server ag = \<lparr>tables = [t], port = free_port w\<rparr>
     \<and> started w' = started w @ [server ag]
     \<and> remover t = Fifo
     \<and> sampler t = Prioritized (priority_exponent a)"
  by (simp add: init_server [OF assms] init_started [OF assms])

text \<open>C2 as amended, at the example run.\<close>

theorem C2_witness:
  "DQNAgent_init example_runtime example_encode example_args example_world =
     (Inr example_agent, example_after)
   \<and> (\<exists>t. server example_agent = \<lparr>tables = [t], port = 41953\<rparr>
        \<and> started example_after = [server example_agent]
        \<and> remover t = Fifo
        \<and> sampler t = Prioritized (6 / 10))"
proof -
  from C2_remover_is_fifo [OF example_run]
  obtain t where "server example_agent = \<lparr>tables = [t], port = free_port example_world\<rparr>"
    "started example_after = started example_world @ [server example_agent]"
    "remover t = Fifo"
    "sampler t = Prioritized (priority_exponent example_args)"
    by blast
  then have "server example_agent = \<lparr>tables = [t], port = 41953\<rparr>
        \<and> started example_after = [server example_agent]
        \<and> remover t = Fifo
        \<and> sampler t = Prioritized (6 / 10)"
    by (simp add: example_world_simps example_args_simps)
  with example_run show ?thesis by blast
qed

text \<open>
  C2 as stated asks for a prioritized removal policy. The example run returns an agent
  whose server holds one table, and the remover of that table is not \<open>Prioritized\<close>.
\<close>

theorem C2_counterexample:
  "DQNAgent_init example_runtime example_encode example_args example_world =
     (Inr example_agent, example_after)
   \<and> map is_Prioritized (map remover (tables (server example_agent))) = [False]"
  by (simp add: example_run example_agent_def example_server_def)



text \<open>
  C4: the target network is a deep copy of the online network, taken after the variables
  of the online network are created. The learner is given the online network and a
  target network with another identity; at the end of the constructor both hold equal
  contents, with the variables created, and a write to either object leaves the other as
  it was.
\<close>

theorem C4_target_network_is_deep_copy:
  assumes "DQNAgent_init rt encode a w = (Inr ag, w')"
  shows "\<exists>kw net.
       dqn_agent.learner ag = construct (learner a) kw
     \<and> learner_kwargs.network kw = dqn_agent.network ag
     \<and> target_network kw \<noteq> dqn_agent.network ag
     \<and> objects w' (dqn_agent.network ag) = Some net
     \<and> objects w' (target_network kw) = Some net
     \<and> variables net = Some (Nest [Leaf (observations (environment_spec a))])
     \<and> decoder_variables net \<noteq> None
     \<and> (projector_variables net \<noteq> None) = (encoder_type a \<noteq> [])
     \<and> (\<forall>v. ((objects w')(dqn_agent.network ag := v)) (target_network kw) = Some net)
     \<and> (\<forall>v. ((objects w')(target_network kw := v)) (dqn_agent.network ag) = Some net)"
proof -
  from init_objects [OF assms] obtain net where net:
    "objects w' (next_id w) = Some net"
    "objects w' (Suc (next_id w)) = Some net"
    "variables net = Some (Nest [Leaf (observations (environment_spec a))])"
    "decoder_variables net \<noteq> None"
    "(projector_variables net \<noteq> None) = (encoder_type a \<noteq> [])"
    by blast
  show ?thesis
    unfolding init_network [OF assms]
    apply (intro exI conjI)
             apply (rule init_learner [OF assms])
    using net by simp_all
qed

text \<open>C4 at the example run: the online network is object 0, its copy object 1.\<close>

theorem C4_witness:
  "DQNAgent_init example_runtime example_encode example_args example_world = (Inr example_agent, example_after)
   \<and> dqn_agent.learner example_agent = example_kwargs
   \<and> learner_kwargs.network example_kwargs = 0
   \<and> target_network example_kwargs = 1
   \<and> objects example_after 0 = Some example_network
   \<and> objects example_after 1 = Some example_network
   \<and> (\<exists>kw net.
       dqn_agent.learner example_agent = construct (learner example_args) kw
     \<and> learner_kwargs.network kw = dqn_agent.network example_agent
     \<and> target_network kw \<noteq> dqn_agent.network example_agent
     \<and> objects example_after (dqn_agent.network example_agent) = Some net
     \<and> objects example_after (target_network kw) = Some net
     \<and> variables net = Some (Nest [Leaf (observations (environment_spec example_args))])
     \<and> decoder_variables net \<noteq> None
     \<and> (projector_variables net \<noteq> None) = (encoder_type example_args \<noteq> [])
     \<and> (\<forall>v. ((objects example_after)(dqn_agent.network example_agent := v))
              (target_network kw) = Some net)
     \<and> (\<forall>v. ((objects example_after)(target_network kw := v))
              (dqn_agent.network example_agent) = Some net))"
proof -
  have "dqn_agent.learner example_agent = example_kwargs"
    "learner_kwargs.network example_kwargs = 0"
    "target_network example_kwargs = 1"
    "objects example_after 0 = Some example_network"
    "objects example_after 1 = Some example_network"
    by (simp_all add: example_agent_def example_kwargs_def example_after_def)
  with example_run C4_target_network_is_deep_copy [OF example_run]
  show ?thesis by blast
qed

text \<open>
  C5, as amended: when \<open>policy_network\<close> is \<open>None\<close>, the actor's policy is the online
  network followed by the epsilon-greedy sample of its output, with the given \<open>epsilon\<close>
  or, when that is \<open>None\<close>, a non-trainable variable of value 0.05; when a
  \<open>policy_network\<close> is given, the actor's policy is that network.
\<close>

theorem C5_policy_of_the_actor:
  assumes "DQNAgent_init rt encode a w = (Inr ag, w')"
  shows "(policy_network a = None \<longrightarrow>
            feed_forward_actor.policy_network (actor ag) =
              Sequential [NetworkCall (dqn_agent.network ag),
                EpsilonGreedySample
                  (case epsilon a of None \<Rightarrow> Variable (5 / 100) False | Some e \<Rightarrow> e)]
          \<and> epsilon_greedy_over (dqn_agent.network ag)
               (feed_forward_actor.policy_network (actor ag)))
       \<and> (\<forall>p. policy_network a = Some p \<longrightarrow>
            feed_forward_actor.policy_network (actor ag) = p)"
  by (simp add: init_actor [OF assms] init_network [OF assms])

text \<open>C5 as amended, at the example run and at the run with a policy network given.\<close>

theorem C5_witness:
  "DQNAgent_init example_runtime example_encode example_args example_world = (Inr example_agent, example_after)
   \<and> policy_network example_args = None
   \<and> feed_forward_actor.policy_network (actor example_agent) =
        Sequential [NetworkCall 0, EpsilonGreedySample (Variable (5 / 100) False)]
   \<and> epsilon_greedy_over (dqn_agent.network example_agent)
        (feed_forward_actor.policy_network (actor example_agent))
   \<and> DQNAgent_init example_runtime example_encode (example_args\<lparr>policy_network := Some (Module 7)\<rparr>)
        example_world =
        (Inr (example_agent
               \<lparr>actor := (actor example_agent)
                  \<lparr>feed_forward_actor.policy_network := Module 7\<rparr>\<rparr>),
         example_after)
   \<and> policy_network (example_args\<lparr>policy_network := Some (Module 7)\<rparr>) = Some (Module 7)
   \<and> feed_forward_actor.policy_network (actor (example_agent
            \<lparr>actor := (actor example_agent)
               \<lparr>feed_forward_actor.policy_network := Module 7\<rparr>\<rparr>)) = Module 7"
proof -
  have n: "policy_network example_args = None" "epsilon example_args = None"
    by (simp_all add: example_args_simps)
  have "dqn_agent.network example_agent = 0"
    by (simp add: example_agent_def)
  with C5_policy_of_the_actor [OF example_run] n
  have "feed_forward_actor.policy_network (actor example_agent) =
        Sequential [NetworkCall 0, EpsilonGreedySample (Variable (5 / 100) False)]"
    and "epsilon_greedy_over (dqn_agent.network example_agent)
        (feed_forward_actor.policy_network (actor example_agent))"
    by simp_all
  moreover
  have "policy_network (example_args\<lparr>policy_network := Some (Module 7)\<rparr>) = Some (Module 7)"
    by simp
  with C5_policy_of_the_actor [OF example_run_given_policy]
  have "feed_forward_actor.policy_network (actor (example_agent
            \<lparr>actor := (actor example_agent)
               \<lparr>feed_forward_actor.policy_network := Module 7\<rparr>\<rparr>)) = Module 7"
    by blast
  ultimately show ?thesis
    using example_run example_run_given_policy n(1) by simp
qed

text \<open>
  C5 as stated speaks of every call. In the example run with the module 7 given as
  \<open>policy_network\<close>, the actor's policy is that module, which is no epsilon-greedy
  policy over the online network.
\<close>

theorem C5_counterexample:
  "DQNAgent_init example_runtime example_encode (example_args\<lparr>policy_network := Some (Module 7)\<rparr>)
     example_world =
     (Inr (example_agent
            \<lparr>actor := (actor example_agent)
               \<lparr>feed_forward_actor.policy_network := Module 7\<rparr>\<rparr>),
      example_after)
   \<and> feed_forward_actor.policy_network (actor (example_agent
            \<lparr>actor := (actor example_agent)
               \<lparr>feed_forward_actor.policy_network := Module 7\<rparr>\<rparr>)) = Module 7
   \<and> \<not> epsilon_greedy_over
         (dqn_agent.network (example_agent
            \<lparr>actor := (actor example_agent)
               \<lparr>feed_forward_actor.policy_network := Module 7\<rparr>\<rparr>))
         (feed_forward_actor.policy_network (actor (example_agent
            \<lparr>actor := (actor example_agent)
               \<lparr>feed_forward_actor.policy_network := Module 7\<rparr>\<rparr>)))"
  by (simp add: example_run_given_policy)

text \<open>
  C6: a checkpointer is created exactly when \<open>checkpoint\<close> is true, with directory
  \<open>checkpoint_subpath\<close>, the learner's state as the objects to save, subdirectory
  \<open>dqn_learner\<close> and a period of 60 minutes. With it, every call of \<open>update\<close> calls
  the parent's \<open>update\<close> and then the checkpointer's \<open>save\<close>; without it the field is
  \<open>None\<close> and \<open>update\<close> only calls the parent's \<open>update\<close>. This is stated for one call
  after any history \<open>l\<close> of calls and for \<open>n\<close> calls in a row.
\<close>

theorem C6_checkpointer:
  assumes "DQNAgent_init rt encode a w = (Inr ag, w')"
  shows "(checkpoint a \<longrightarrow>
            checkpointer ag =
              Some \<lparr>directory = checkpoint_subpath a,
                    objects_to_save = state (learner a) (dqn_agent.learner ag),
                    subdirectory = ''dqn_learner'',
                    time_delta_minutes = 60\<rparr>
          \<and> update ag l = l @ [Agent_update,
               Checkpointer_save
                 \<lparr>directory = checkpoint_subpath a,
                  objects_to_save = state (learner a) (dqn_agent.learner ag),
                  subdirectory = ''dqn_learner'',
                  time_delta_minutes = 60\<rparr>]
          \<and> (update ag ^^ n) l = l @ concat (replicate n [Agent_update,
               Checkpointer_save
                 \<lparr>directory = checkpoint_subpath a,
                  objects_to_save = state (learner a) (dqn_agent.learner ag),
                  subdirectory = ''dqn_learner'',
                  time_delta_minutes = 60\<rparr>]))
       \<and> (\<not> checkpoint a \<longrightarrow>
            checkpointer ag = None
          \<and> update ag l = l @ [Agent_update]
          \<and> (update ag ^^ n) l = l @ replicate n Agent_update)"
proof (cases "checkpoint a")
  case True
  with init_checkpointer [OF assms]
  have c: "checkpointer ag =
      Some \<lparr>directory = checkpoint_subpath a,
            objects_to_save = state (learner a) (dqn_agent.learner ag),
            subdirectory = ''dqn_learner'',
            time_delta_minutes = 60\<rparr>"
    by simp
  from True c update_Some [OF c, of l] update_funpow_Some [OF c, of n l]
  show ?thesis by simp
next
  case False
  with init_checkpointer [OF assms] have c: "checkpointer ag = None"
    by simp
  from False c update_None [OF c, of l] update_funpow_None [OF c, of n l]
  show ?thesis by simp
qed

text \<open>C6 at the example run and at the run with \<open>checkpoint=False\<close>.\<close>

theorem C6_witness:
  "DQNAgent_init example_runtime example_encode example_args example_world = (Inr example_agent, example_after)
   \<and> checkpoint example_args
   \<and> checkpointer example_agent = Some example_checkpointer
   \<and> update example_agent [] = [Agent_update, Checkpointer_save example_checkpointer]
   \<and> (update example_agent ^^ 2) [] =
        [Agent_update, Checkpointer_save example_checkpointer,
         Agent_update, Checkpointer_save example_checkpointer]
   \<and> DQNAgent_init example_runtime example_encode (example_args\<lparr>checkpoint := False\<rparr>) example_world =
       (Inr (example_agent
              \<lparr>checkpointer := None,
               dqn_agent.learner := example_kwargs\<lparr>learner_kwargs.checkpoint := False\<rparr>\<rparr>),
        example_after)
   \<and> \<not> checkpoint (example_args\<lparr>checkpoint := False\<rparr>)
   \<and> checkpointer (example_agent
              \<lparr>checkpointer := None,
               dqn_agent.learner := example_kwargs\<lparr>learner_kwargs.checkpoint := False\<rparr>\<rparr>)
        = None
   \<and> update (example_agent
              \<lparr>checkpointer := None,
               dqn_agent.learner := example_kwargs\<lparr>learner_kwargs.checkpoint := False\<rparr>\<rparr>) []
        = [Agent_update]
   \<and> (update (example_agent
              \<lparr>checkpointer := None,
               dqn_agent.learner := example_kwargs\<lparr>learner_kwargs.checkpoint := False\<rparr>\<rparr>) ^^ 2) []
        = [Agent_update, Agent_update]"
proof -
  have c: "checkpoint example_args"
    by (simp add: example_args_simps)
  have e: "\<lparr>directory = checkpoint_subpath example_args,
            objects_to_save = state (learner example_args) (dqn_agent.learner example_agent),
            subdirectory = ''dqn_learner'',
            time_delta_minutes = 60\<rparr> = example_checkpointer"
    by (simp add: example_args_simps example_checkpointer_def example_learner_def
        example_agent_def example_kwargs_def)
  from C6_checkpointer [OF example_run, of "[]" 2] c
  have "checkpointer example_agent = Some example_checkpointer"
    and "update example_agent [] = [] @ [Agent_update, Checkpointer_save example_checkpointer]"
    and "(update example_agent ^^ 2) [] =
        [] @ concat (replicate 2 [Agent_update, Checkpointer_save example_checkpointer])"
    unfolding e by blast+
  then have "checkpointer example_agent = Some example_checkpointer"
    and "update example_agent [] = [Agent_update, Checkpointer_save example_checkpointer]"
    and "(update example_agent ^^ 2) [] =
        [Agent_update, Checkpointer_save example_checkpointer,
         Agent_update, Checkpointer_save example_checkpointer]"
    by (simp_all add: numeral_2_eq_2)
  moreover
  have nc: "\<not> checkpoint (example_args\<lparr>checkpoint := False\<rparr>)"
    by simp
  from C6_checkpointer [OF example_run_no_checkpoint, of "[]" 2] nc
  have "checkpointer (example_agent
              \<lparr>checkpointer := None,
               dqn_agent.learner := example_kwargs\<lparr>learner_kwargs.checkpoint := False\<rparr>\<rparr>)
        = None"
    and "update (example_agent
              \<lparr>checkpointer := None,
               dqn_agent.learner := example_kwargs\<lparr>learner_kwargs.checkpoint := False\<rparr>\<rparr>) []
        = [] @ [Agent_update]"
    and "(update (example_agent
              \<lparr>checkpointer := None,
               dqn_agent.learner := example_kwargs\<lparr>learner_kwargs.checkpoint := False\<rparr>\<rparr>) ^^ 2) []
        = [] @ replicate 2 Agent_update"
    by blast+
  then have "checkpointer (example_agent
              \<lparr>checkpointer := None,
               dqn_agent.learner := example_kwargs\<lparr>learner_kwargs.checkpoint := False\<rparr>\<rparr>)
        = None"
    and "update (example_agent
              \<lparr>checkpointer := None,
               dqn_agent.learner := example_kwargs\<lparr>learner_kwargs.checkpoint := False\<rparr>\<rparr>) []
        = [Agent_update]"
    and "(update (example_agent
              \<lparr>checkpointer := None,
               dqn_agent.learner := example_kwargs\<lparr>learner_kwargs.checkpoint := False\<rparr>\<rparr>) ^^ 2) []
        = [Agent_update, Agent_update]"
    by (simp_all add: numeral_2_eq_2)
  ultimately show ?thesis
    using example_run example_run_no_checkpoint c nc by simp
qed

text \<open>
  C7: the adder is an n-step transition adder over a client of the replay server that
  this call created, the client's address being \<open>localhost:\<close> followed by that
  server's port, with the given \<open>n_step\<close> and \<open>discount\<close>.
\<close>

theorem C7_adder:
  assumes "DQNAgent_init rt encode a w = (Inr ag, w')"
  shows "adder (actor ag) =
           \<lparr>client = Client (''localhost:'' @ str_nat (port (server ag))),
            nstep_transition_adder.n_step = n_step a,
            nstep_transition_adder.discount = discount a\<rparr>
       \<and> started w' = started w @ [server ag]"
  by (simp add: init_actor [OF assms] init_server [OF assms] init_started [OF assms])

text \<open>C7 at the example run.\<close>

theorem C7_witness:
  "DQNAgent_init example_runtime example_encode example_args example_world = (Inr example_agent, example_after)
   \<and> adder (actor example_agent) =
        \<lparr>client = Client ''localhost:41953'',
         nstep_transition_adder.n_step = 5,
         nstep_transition_adder.discount = 99 / 100\<rparr>
   \<and> port (server example_agent) = 41953
   \<and> started example_after = started example_world @ [server example_agent]"
proof -
  have "port (server example_agent) = 41953"
    by (simp add: example_agent_def example_server_def)
  with C7_adder [OF example_run] example_run show ?thesis
    by (simp add: example_args_simps str_nat_41953)
qed

text \<open>
  C8: the parent class is given \<open>max(batch_size, min_replay_size)\<close> as the minimum
  number of observations, so with \<open>batch_size\<close> above \<open>min_replay_size\<close> the minimum
  is \<open>batch_size\<close> and not the given \<open>min_replay_size\<close>.
\<close>

theorem C8_min_observations:
  assumes "DQNAgent_init rt encode a w = (Inr ag, w')"
  shows "min_observations ag = max (batch_size a) (min_replay_size a)
       \<and> (min_replay_size a < batch_size a \<longrightarrow>
            min_observations ag = batch_size a \<and> min_observations ag \<noteq> min_replay_size a)"
  by (simp add: init_parent_args(1) [OF assms])

text \<open>C8 at the example run with \<open>min_replay_size=100\<close> under the batch size 256.\<close>

theorem C8_witness:
  "DQNAgent_init example_runtime example_encode (example_args\<lparr>min_replay_size := 100\<rparr>) example_world =
     (Inr (example_agent\<lparr>min_observations := 256\<rparr>), example_after)
   \<and> min_replay_size (example_args\<lparr>min_replay_size := 100\<rparr>) = 100
   \<and> batch_size (example_args\<lparr>min_replay_size := 100\<rparr>) = 256
   \<and> min_observations (example_agent\<lparr>min_observations := 256\<rparr>) = 256"
proof -
  have v: "min_replay_size (example_args\<lparr>min_replay_size := 100\<rparr>) = 100"
    "batch_size (example_args\<lparr>min_replay_size := 100\<rparr>) = 256"
    by (simp_all add: example_args_simps)
  from C8_min_observations [OF example_run_small_replay]
  have "min_observations (example_agent\<lparr>min_observations := 256\<rparr>) = 256"
    unfolding v by simp
  with example_run_small_replay v show ?thesis by simp
qed




text \<open>
  C10: with \<open>policy_network\<close> and \<open>epsilon\<close> both \<open>None\<close>, the actor's policy is
  epsilon-greedy over the online network with a non-trainable variable of value 0.05 as
  epsilon. With a \<open>policy_network\<close> given, that network is the actor's policy and the
  argument \<open>epsilon\<close> has no effect: replacing it by any \<open>e\<close> changes neither the
  result of the constructor nor the world it leaves.
\<close>

theorem C10_default_and_given_policy:
  "(policy_network a = None \<and> epsilon a = None
      \<and> DQNAgent_init rt encode a w = (Inr ag, w') \<longrightarrow>
        feed_forward_actor.policy_network (actor ag) =
          Sequential [NetworkCall (dqn_agent.network ag),
            EpsilonGreedySample (Variable (5 / 100) False)])
   \<and> (policy_network a = Some p \<longrightarrow>
        DQNAgent_init rt encode (a\<lparr>epsilon := e\<rparr>) w = DQNAgent_init rt encode a w
      \<and> (DQNAgent_init rt encode a w = (Inr ag, w') \<longrightarrow>
           feed_forward_actor.policy_network (actor ag) = p))"
proof (intro conjI impI)
  assume "policy_network a = None \<and> epsilon a = None
      \<and> DQNAgent_init rt encode a w = (Inr ag, w')"
  then have n: "policy_network a = None" "epsilon a = None"
    and r: "DQNAgent_init rt encode a w = (Inr ag, w')"
    by simp_all
  from n show "feed_forward_actor.policy_network (actor ag) =
          Sequential [NetworkCall (dqn_agent.network ag),
            EpsilonGreedySample (Variable (5 / 100) False)]"
    by (simp add: init_actor [OF r] init_network [OF r])
next
  assume p: "policy_network a = Some p"
  show "DQNAgent_init rt encode (a\<lparr>epsilon := e\<rparr>) w = DQNAgent_init rt encode a w"
  proof (cases "reverb_Table rt (replay_table a)")
    case (Inl err)
    then show ?thesis
      by (simp add: DQNAgent_init_def)
  next
    case t: (Inr tb)
    show ?thesis
    proof (cases "make_reverb_dataset rt (replay_address w) (batch_size a) (prefetch_size a)")
      case (Inl err)
      with t show ?thesis
        by (simp add: DQNAgent_init_def reverb_Server_def Let_def)
    next
      case d: (Inr ds)
      show ?thesis
      proof (cases "shape (observations (environment_spec a))")
        case Nil
        with t d show ?thesis
          by (simp add: DQNAgent_init_def reverb_Server_def Let_def)
      next
        case sh: (Cons n ns)
        show ?thesis
        proof (cases "to_float rt (batch_size a)")
          case (Inl err)
          with t d sh p show ?thesis
            by (simp add: init_defs)
        next
          case (Inr x)
          with t d sh p show ?thesis
            by (simp add: init_defs)
        qed
      qed
    qed
  qed
next
  assume p: "policy_network a = Some p" and r: "DQNAgent_init rt encode a w = (Inr ag, w')"
  from p show "feed_forward_actor.policy_network (actor ag) = p"
    by (simp add: init_actor [OF r])
qed

text \<open>
  C10 at the example run, and at the run with the module 7 given as policy, where an
  epsilon of 0.9 is passed as well.
\<close>

theorem C10_witness:
  "policy_network example_args = None
   \<and> epsilon example_args = None
   \<and> DQNAgent_init example_runtime example_encode example_args example_world = (Inr example_agent, example_after)
   \<and> feed_forward_actor.policy_network (actor example_agent) =
        Sequential [NetworkCall 0, EpsilonGreedySample (Variable (5 / 100) False)]
   \<and> policy_network (example_args\<lparr>policy_network := Some (Module 7)\<rparr>) = Some (Module 7)
   \<and> DQNAgent_init example_runtime example_encode
        (example_args\<lparr>policy_network := Some (Module 7), epsilon := Some (Tensor (9 / 10))\<rparr>)
        example_world =
      DQNAgent_init example_runtime example_encode (example_args\<lparr>policy_network := Some (Module 7)\<rparr>)
        example_world
   \<and> DQNAgent_init example_runtime example_encode (example_args\<lparr>policy_network := Some (Module 7)\<rparr>)
        example_world =
        (Inr (example_agent
               \<lparr>actor := (actor example_agent)
                  \<lparr>feed_forward_actor.policy_network := Module 7\<rparr>\<rparr>),
         example_after)
   \<and> feed_forward_actor.policy_network (actor (example_agent
               \<lparr>actor := (actor example_agent)
                  \<lparr>feed_forward_actor.policy_network := Module 7\<rparr>\<rparr>)) = Module 7"
proof -
  have n: "policy_network example_args = None" "epsilon example_args = None"
    by (simp_all add: example_args_simps)
  have z: "dqn_agent.network example_agent = 0"
    by (simp add: example_agent_def)
  from C10_default_and_given_policy
    [where rt = example_runtime and a = example_args and encode = example_encode
       and w = example_world and ag = example_agent and w' = example_after] n example_run
  have d: "feed_forward_actor.policy_network (actor example_agent) =
        Sequential [NetworkCall 0, EpsilonGreedySample (Variable (5 / 100) False)]"
    unfolding z by blast
  have g: "policy_network (example_args\<lparr>policy_network := Some (Module 7)\<rparr>) = Some (Module 7)"
    by simp
  from C10_default_and_given_policy
    [where rt = example_runtime
       and a = "example_args\<lparr>policy_network := Some (Module 7)\<rparr>" and p = "Module 7"
       and encode = example_encode and e = "Some (Tensor (9 / 10))" and w = example_world
       and ag = "example_agent\<lparr>actor := (actor example_agent)
         \<lparr>feed_forward_actor.policy_network := Module 7\<rparr>\<rparr>" and w' = example_after]
    g example_run_given_policy
  have "DQNAgent_init example_runtime example_encode
        (example_args\<lparr>policy_network := Some (Module 7), epsilon := Some (Tensor (9 / 10))\<rparr>)
        example_world =
      DQNAgent_init example_runtime example_encode (example_args\<lparr>policy_network := Some (Module 7)\<rparr>)
        example_world"
    and "feed_forward_actor.policy_network (actor (example_agent
               \<lparr>actor := (actor example_agent)
                  \<lparr>feed_forward_actor.policy_network := Module 7\<rparr>\<rparr>)) = Module 7"
    by blast+
  with n d g example_run example_run_given_policy show ?thesis
    by blast
qed

end
